theory Spec2Isabelle
  imports Complex_Main "HOL-Library.Sublist" "HOL-Library.Multiset"
begin

section \<open>Strings, numbers and insertion-ordered maps\<close>

text \<open>
  The TypeScript sources work on JavaScript strings and numbers. A string is modelled as
  a list of bytes: ASCII letters are case-mapped by \<open>toLowerCase\<close>, the six
  ASCII white-space characters are what the regular expression \<open>\s\<close> matches, and
  every other byte is caseless and not white space. A JavaScript number is modelled as an
  exact rational (\<open>number\<close>), so the rounding of floating-point sums and products
  is outside the model; a \<open>Date\<close> as the number of milliseconds it holds.
\<close>

type_synonym number = rat
type_synonym Date = nat

definition toLowerChar :: "char \<Rightarrow> char" where
  "toLowerChar c =
     (case map_of (zip ''ABCDEFGHIJKLMNOPQRSTUVWXYZ'' ''abcdefghijklmnopqrstuvwxyz'') c of
        Some d \<Rightarrow> d
      | None \<Rightarrow> c)"

definition toLowerCase :: "string \<Rightarrow> string" where
  "toLowerCase s = map toLowerChar s"

definition isSpace :: "char \<Rightarrow> bool" where
  "isSpace c = (c \<in> set [CHR 0x09, CHR 0x0A, CHR 0x0B, CHR 0x0C, CHR 0x0D, CHR 0x20])"

text \<open>\<open>s.includes(t)\<close> of the source: \<open>t\<close> occurs in \<open>s\<close> as a contiguous substring.\<close>

fun str_includes :: "string \<Rightarrow> string \<Rightarrow> bool" where
  "str_includes [] t = (t = [])"
| "str_includes (c # s) t = (prefix t (c # s) \<or> str_includes s t)"

text \<open>
  \<open>s.split(/\s+/)\<close>: the pieces between maximal runs of white space. A run at the start
  or at the end of the string leaves an empty piece there, and the empty string splits
  into one empty piece.
\<close>

function split_ws :: "string \<Rightarrow> string list" where
  "split_ws [] = [[]]"
| "split_ws (c # s) =
     (if isSpace c then [] # split_ws (dropWhile isSpace s)
      else (case split_ws s of
              [] \<Rightarrow> [[c]]
            | t # ts \<Rightarrow> (c # t) # ts))"
  by pat_completeness auto
termination
  by (relation "measure length") (auto simp: less_Suc_eq_le length_dropWhile_le)

text \<open>\<open>xs.join(sep)\<close>\<close>

fun join :: "string \<Rightarrow> string list \<Rightarrow> string" where
  "join sep [] = []"
| "join sep [x] = x"
| "join sep (x # y # ys) = x @ sep @ join sep (y # ys)"

text \<open>
  A JavaScript \<open>Map\<close> enumerates its entries in the order their keys were first set;
  setting a key that is present replaces the value in place.
\<close>

fun Map_set :: "'k \<Rightarrow> 'v \<Rightarrow> ('k \<times> 'v) list \<Rightarrow> ('k \<times> 'v) list" where
  "Map_set k v [] = [(k, v)]"
| "Map_set k v ((k', v') # m) =
     (if k' = k then (k, v) # m else (k', v') # Map_set k v m)"

definition Map_get :: "('k \<times> 'v) list \<Rightarrow> 'k \<Rightarrow> 'v option" where
  "Map_get m k = map_of m k"

definition Map_values :: "('k \<times> 'v) list \<Rightarrow> 'v list" where
  "Map_values m = map snd m"

definition Map_entries :: "('k \<times> 'v) list \<Rightarrow> ('k \<times> 'v) list" where
  "Map_entries m = m"

section \<open>Entity model (types.ts)\<close>

datatype Outcome = success | failure | partial

record PatternExample =
  example_input :: string
  example_output :: string
  example_outcome :: Outcome

datatype RelationType = leads_to | refined_by | conflicts_with | requires

record PatternRelation =
  relation_type :: RelationType
  patternId :: string
  strength :: number

record Pattern =
  pattern_id :: string
  name :: string
  pattern_context :: "string list"
  problem :: string
  solution :: string
  examples :: "PatternExample list"
  relations :: "PatternRelation list"
  confidence :: number
  usageCount :: int
  createdAt :: Date
  lastUsedAt :: "Date option"

record Episode =
  episode_id :: string
  timestamp :: Date
  episode_context :: string
  actions :: "string list"
  outcome :: string
  patternIds :: "string list"

record PatternSearchResult =
  pattern :: Pattern
  relevance :: number
  reason :: string

section \<open>PatternExtractor (patternExtractor.ts)\<close>

definition categorizeOutcome :: "string \<Rightarrow> Outcome" where
  "categorizeOutcome outcome_text =
     (let lower = toLowerCase outcome_text in
      if str_includes lower ''success'' \<or> str_includes lower ''understood'' \<or>
         str_includes lower ''completed'' \<or> str_includes lower ''solved''
      then success
      else if str_includes lower ''fail'' \<or> str_includes lower ''error'' \<or>
              str_includes lower ''confused'' \<or> str_includes lower ''stuck''
      then failure
      else partial)"

text \<open>The separator \<open>' \<rightarrow> '\<close> of the source, the arrow in UTF-8.\<close>

definition arrow_sep :: string where
  "arrow_sep = [CHR 0x20, CHR 0xE2, CHR 0x86, CHR 0x92, CHR 0x20]"

text \<open>\<open>m.set(k, (m.get(k) || 0) + 1)\<close>\<close>

definition increment :: "string \<Rightarrow> (string \<times> nat) list \<Rightarrow> (string \<times> nat) list" where
  "increment k m = Map_set k ((case Map_get m k of None \<Rightarrow> 0 | Some n \<Rightarrow> n) + 1) m"

definition countContextWords :: "Episode list \<Rightarrow> (string \<times> nat) list" where
  "countContextWords episodes =
     fold (\<lambda>ep contextCounts.
             fold (\<lambda>word counts. if length word > 3 then increment word counts else counts)
                  (split_ws (toLowerCase (episode_context ep))) contextCounts)
          episodes []"

definition commonContextOf :: "Episode list \<Rightarrow> string list" where
  "commonContextOf episodes =
     (let contextCounts = countContextWords episodes;
          threshold = (of_nat (length episodes) :: number) * (1 / 2)
      in take 5 (map fst (filter (\<lambda>(word, count). of_nat count \<ge> threshold)
                                 (Map_entries contextCounts))))"

definition findCommonActionPatterns :: "Episode list \<Rightarrow> string list" where
  "findCommonActionPatterns episodes =
     (let actionSequences =
            fold (\<lambda>ep seqs.
                    fold (\<lambda>i counts. increment (actions ep ! i @ arrow_sep @ actions ep ! (i + 1)) counts)
                         [0 ..< length (actions ep) - 1] seqs)
                 episodes [];
          threshold = (of_nat (length episodes) :: number) * (3 / 10)
      in take 3 (map fst (filter (\<lambda>(sequence, count). of_nat count \<ge> threshold)
                                 (Map_entries actionSequences))))"

definition generateSolution :: "string list \<Rightarrow> Episode list \<Rightarrow> string" where
  "generateSolution actionPatterns episodes =
     (case actionPatterns of
        first # _ \<Rightarrow> ''Apply the following action sequence: '' @ first
      | [] \<Rightarrow>
         (case filter (\<lambda>ep. categorizeOutcome (outcome ep) = success) episodes of
            firstSuccess # _ \<Rightarrow> ''Follow approach: '' @ join '', then '' (actions firstSuccess)
          | [] \<Rightarrow> ''Analyze the context and apply appropriate actions based on examples''))"

text \<open>\<open>s.replace(/\s+/g, '-')\<close>\<close>

function replace_ws_runs :: "string \<Rightarrow> string" where
  "replace_ws_runs [] = []"
| "replace_ws_runs (c # s) =
     (if isSpace c then CHR ''-'' # replace_ws_runs (dropWhile isSpace s)
      else c # replace_ws_runs s)"
  by pat_completeness auto
termination
  by (relation "measure length") (auto simp: less_Suc_eq_le length_dropWhile_le)

definition generatePatternId :: "string \<Rightarrow> string" where
  "generatePatternId nm =
     filter (\<lambda>c. c \<in> set ''abcdefghijklmnopqrstuvwxyz0123456789-'')
            (replace_ws_runs (toLowerCase nm))"

text \<open>
  \<open>extractPattern\<close>; the clock read by \<open>new Date()\<close> is the argument \<open>now\<close>,
  and \<open>null\<close> is \<open>None\<close>.
\<close>

definition extractPattern :: "Episode list \<Rightarrow> string \<Rightarrow> string \<Rightarrow> Date \<Rightarrow> Pattern option" where
  "extractPattern episodes nm problemStatement now =
     (if length episodes < 2 then None
      else
        let commonContext = commonContextOf episodes;
            actionPatterns = findCommonActionPatterns episodes;
            exs = map (\<lambda>ep. \<lparr> example_input = episode_context ep,
                                example_output = join arrow_sep (actions ep),
                                example_outcome = categorizeOutcome (outcome ep) \<rparr>)
                      (take 3 episodes);
            successRate =
              (of_nat (length (filter (\<lambda>ep. categorizeOutcome (outcome ep) = success) episodes)) :: number)
                / of_nat (length episodes)
        in Some \<lparr> pattern_id = generatePatternId nm,
                   name = nm,
                   pattern_context = (if length commonContext > 0 then commonContext else [''general'']),
                   problem = problemStatement,
                   solution = generateSolution actionPatterns episodes,
                   examples = exs,
                   relations = [],
                   confidence = min (9 / 10) successRate,
                   usageCount = 0,
                   createdAt = now,
                   lastUsedAt = None \<rparr>)"

definition findRelatedPatterns :: "Pattern \<Rightarrow> Pattern list \<Rightarrow> string list" where
  "findRelatedPatterns p allPatterns =
     map pattern_id
       (filter (\<lambda>other.
                  pattern_id other \<noteq> pattern_id p \<and>
                  length (filter (\<lambda>c. list_ex (\<lambda>oc. str_includes oc c \<or> str_includes c oc)
                                               (pattern_context other))
                                 (pattern_context p)) > 0)
               allPatterns)"

section \<open>The file-backed PatternStore (patternStore.ts)\<close>

text \<open>
  The store keeps two \<open>Map\<close>s from ids to records. Each mutating operation rewrites
  the snapshot files from the maps (\<open>saveToDisk\<close>, which catches its I/O errors), so
  the maps are the state. An operation takes the store and returns the new one;
  \<open>undefined\<close> and \<open>null\<close> are \<open>None\<close>. The objects held by the map are
  taken to be distinct for distinct keys.
\<close>

record PatternStore =
  patterns :: "(string \<times> Pattern) list"
  episodes :: "(string \<times> Episode) list"

definition samplePatterns :: "Date \<Rightarrow> Pattern list" where
  "samplePatterns now =
     [\<lparr> pattern_id = ''progressive-disclosure'',
         name = ''Progressive Disclosure'',
         pattern_context = [''user is learning'', ''complex topic'', ''beginner level''],
         problem = ''Too much information at once overwhelms the learner'',
         solution = ''Reveal complexity gradually, starting with core concepts'',
         examples = [\<lparr> example_input = ''Explain recursion'',
                        example_output = ''Start with simple counting down, then factorial, then tree traversal'',
                        example_outcome = success \<rparr>],
         relations = [],
         confidence = 85 / 100,
         usageCount = 0,
         createdAt = now,
         lastUsedAt = None \<rparr>,
      \<lparr> pattern_id = ''concrete-before-abstract'',
         name = ''Concrete Before Abstract'',
         pattern_context = [''teaching concept'', ''abstract idea'', ''user struggling''],
         problem = ''Abstract concepts are hard to grasp without grounding'',
         solution = ''Provide concrete examples before explaining the abstraction'',
         examples = [\<lparr> example_input = ''Explain interfaces'',
                        example_output = ''Show USB ports, electrical outlets, then programming interfaces'',
                        example_outcome = success \<rparr>],
         relations = [\<lparr> relation_type = leads_to, patternId = ''progressive-disclosure'',
                         strength = 7 / 10 \<rparr>],
         confidence = 9 / 10,
         usageCount = 0,
         createdAt = now,
         lastUsedAt = None \<rparr>]"

definition initializeWithSamplePatterns :: "Date \<Rightarrow> PatternStore \<Rightarrow> PatternStore" where
  "initializeWithSamplePatterns now s =
     s\<lparr>patterns := fold (\<lambda>p m. Map_set (pattern_id p) p m) (samplePatterns now) (patterns s)\<rparr>"

text \<open>\<open>initialize\<close>, after \<open>loadFromDisk\<close> has filled the maps of \<open>s\<close>.\<close>

definition initialize :: "Date \<Rightarrow> PatternStore \<Rightarrow> PatternStore" where
  "initialize now s =
     (if length (patterns s) = 0 then initializeWithSamplePatterns now s else s)"

definition savePattern :: "Pattern \<Rightarrow> PatternStore \<Rightarrow> PatternStore" where
  "savePattern p s = s\<lparr>patterns := Map_set (pattern_id p) p (patterns s)\<rparr>"

definition getPattern :: "PatternStore \<Rightarrow> string \<Rightarrow> Pattern option" where
  "getPattern s i = Map_get (patterns s) i"

definition getAllPatterns :: "PatternStore \<Rightarrow> Pattern list" where
  "getAllPatterns s = Map_values (patterns s)"

text \<open>
  \<open>xs.sort((a, b) => key(b) - key(a))\<close>: the sort of JavaScript arrays is stable, and
  this comparator orders by descending key.
\<close>

definition sort_descending :: "('a \<Rightarrow> number) \<Rightarrow> 'a list \<Rightarrow> 'a list" where
  "sort_descending key xs = sort_key (\<lambda>x. - key x) xs"

text \<open>
  The body of the loop of \<open>searchPatterns\<close> for one pattern: the result it pushes, if
  any. Both stores run this same text.
\<close>

definition scorePattern :: "string \<Rightarrow> Pattern \<Rightarrow> PatternSearchResult option" where
  "scorePattern context_text p =
     (let contextLower = toLowerCase context_text;
          (relevance1, matchedContexts) =
             fold (\<lambda>patternContext (rel, matched).
                     if str_includes contextLower (toLowerCase patternContext)
                     then (rel + 3 / 10, matched @ [patternContext])
                     else (rel, matched))
                  (pattern_context p) (0, []);
          relevance2 = (if str_includes contextLower (toLowerCase (name p))
                        then relevance1 + 2 / 10 else relevance1);
          relevance3 = (if str_includes (toLowerCase (problem p)) contextLower \<or>
                           str_includes contextLower (toLowerCase (problem p))
                        then relevance2 + 2 / 10 else relevance2);
          relevance4 = relevance3 * confidence p
      in if relevance4 > 0
         then Some \<lparr> pattern = p,
                     relevance = min relevance4 1,
                     reason = (if length matchedContexts > 0
                               then ''Matches contexts: '' @ join '', '' matchedContexts
                               else ''Partial match on name or problem'') \<rparr>
         else None)"

definition searchOver :: "Pattern list \<Rightarrow> string \<Rightarrow> PatternSearchResult list" where
  "searchOver ps context_text =
     (let results = fold (\<lambda>p results. case scorePattern context_text p of
                                         None \<Rightarrow> results
                                       | Some r \<Rightarrow> results @ [r])
                         ps []
      in sort_descending relevance results)"

definition searchPatterns :: "PatternStore \<Rightarrow> string \<Rightarrow> PatternSearchResult list" where
  "searchPatterns s context_text = searchOver (Map_values (patterns s)) context_text"


definition reinforcePattern :: "string \<Rightarrow> bool \<Rightarrow> PatternStore \<Rightarrow> PatternStore" where
  "reinforcePattern patternId' succeeded s =
     (case Map_get (patterns s) patternId' of
        None \<Rightarrow> s
      | Some p \<Rightarrow>
          (let adjustment = (if succeeded then 5 / 100 else - (2 / 100));
               p' = p\<lparr>confidence := max (1 / 10) (min 1 (confidence p + adjustment))\<rparr>
           in s\<lparr>patterns := Map_set patternId' p' (patterns s)\<rparr>))"

definition saveEpisode :: "Episode \<Rightarrow> PatternStore \<Rightarrow> PatternStore" where
  "saveEpisode e s = s\<lparr>episodes := Map_set (episode_id e) e (episodes s)\<rparr>"

text \<open>\<open>new Set(xs)\<close> keeps the first occurrence of each element, in order.\<close>

definition Set_of :: "'a list \<Rightarrow> 'a list" where
  "Set_of xs = rev (remdups (rev xs))"





definition extractPatternFromEpisodes ::
    "Date \<Rightarrow> string list \<Rightarrow> string \<Rightarrow> string \<Rightarrow> PatternStore \<Rightarrow> Pattern option \<times> PatternStore" where
  "extractPatternFromEpisodes now episodeIds patternName problemStatement s =
     (let eps = List.map_filter (\<lambda>i. Map_get (episodes s) i) episodeIds
      in if length eps < 2 then (None, s)
         else (case extractPattern eps patternName problemStatement now of
                 None \<Rightarrow> (None, s)
               | Some p \<Rightarrow>
                   (let allPatterns = Map_values (patterns s);
                        relatedIds = findRelatedPatterns p allPatterns;
                        p' = p\<lparr>relations := map (\<lambda>i. \<lparr> relation_type = leads_to, patternId = i,
                                                           strength = 5 / 10 \<rparr>) relatedIds\<rparr>
                    in (Some p', savePattern p' s))))"

section \<open>The relational PatternStore (patternStorePostgres.ts, schema.sql)\<close>

text \<open>
  The tables of \<open>schema.sql\<close> as lists of rows. The column \<open>confidence DECIMAL(3,2)\<close>
  holds a fixed-point number with two decimals, kept here as its count of hundredths;
  \<open>examples\<close> and \<open>relations\<close> are nullable \<open>JSONB\<close> columns. A statement the
  engine rejects is an error value.
\<close>

record PatternRow =
  row_id :: string
  row_name :: string
  row_context :: "string list"
  row_problem :: string
  row_solution :: string
  row_examples :: "PatternExample list option"
  row_relations :: "PatternRelation list option"
  row_confidence :: int
  row_usage_count :: int
  row_created_at :: Date
  row_last_used_at :: "Date option"
  row_updated_at :: Date

record EpisodeRow =
  erow_id :: string
  erow_timestamp :: Date
  erow_context :: string
  erow_actions :: "string list"
  erow_outcome :: string
  erow_pattern_ids :: "string list"
  erow_created_at :: Date

record Database =
  patterns_table :: "PatternRow list"
  episodes_table :: "EpisodeRow list"


definition rowToPattern :: "PatternRow \<Rightarrow> Pattern" where
  "rowToPattern row =
     \<lparr> pattern_id = row_id row,
       name = row_name row,
       pattern_context = row_context row,
       problem = row_problem row,
       solution = row_solution row,
       examples = (case row_examples row of None \<Rightarrow> [] | Some xs \<Rightarrow> xs),
       relations = (case row_relations row of None \<Rightarrow> [] | Some xs \<Rightarrow> xs),
       confidence = of_int (row_confidence row) / 100,
       usageCount = row_usage_count row,
       createdAt = row_created_at row,
       lastUsedAt = row_last_used_at row \<rparr>"


text \<open>\<open>SELECT * FROM patterns WHERE id = $1\<close>, first row if any\<close>

definition pg_getPattern :: "Database \<Rightarrow> string \<Rightarrow> Pattern option" where
  "pg_getPattern db i =
     (case filter (\<lambda>row. row_id row = i) (patterns_table db) of
        [] \<Rightarrow> None
      | row # _ \<Rightarrow> Some (rowToPattern row))"

text \<open>\<open>SELECT * FROM patterns ORDER BY confidence DESC\<close>\<close>

definition pg_getAllPatterns :: "Database \<Rightarrow> Pattern list" where
  "pg_getAllPatterns db =
     map rowToPattern (sort_key (\<lambda>row. - row_confidence row) (patterns_table db))"

definition pg_searchPatterns :: "Database \<Rightarrow> string \<Rightarrow> PatternSearchResult list" where
  "pg_searchPatterns db context_text = searchOver (pg_getAllPatterns db) context_text"


text \<open>
  \<open>UPDATE patterns SET confidence = LEAST(1.0, GREATEST(0.1, confidence + $1))
  WHERE id = $2\<close>, in hundredths.
\<close>

definition pg_reinforcePattern :: "Date \<Rightarrow> string \<Rightarrow> bool \<Rightarrow> Database \<Rightarrow> Database" where
  "pg_reinforcePattern now patternId' succeeded db =
     (let adjustment = (if succeeded then 5 else - 2) in
      db\<lparr>patterns_table :=
            map (\<lambda>row. if row_id row = patternId'
                        then row\<lparr>row_confidence := min 100 (max 10 (row_confidence row + adjustment)),
                                  row_updated_at := now\<rparr>
                        else row)
                (patterns_table db)\<rparr>)"




section \<open>The properties in the words of the specification\<close>

definition success_words :: "string list" where
  "success_words = [''success'', ''understood'', ''completed'', ''solved'']"

text \<open>The text \<open>t\<close>, lower-cased, contains one of the words \<open>ws\<close>.\<close>

definition mentions_any :: "string list \<Rightarrow> string \<Rightarrow> bool" where
  "mentions_any ws t = list_ex (\<lambda>w. str_includes (toLowerCase t) w) ws"

definition success_count :: "Episode list \<Rightarrow> nat" where
  "success_count eps = length (filter (\<lambda>ep. mentions_any success_words (outcome ep)) eps)"

text \<open>The relevance of a pattern for a query, as the specification words it.\<close>

definition matched_tags :: "string \<Rightarrow> Pattern \<Rightarrow> string list" where
  "matched_tags q p =
     filter (\<lambda>tag. str_includes (toLowerCase q) (toLowerCase tag)) (pattern_context p)"

definition raw_score :: "string \<Rightarrow> Pattern \<Rightarrow> number" where
  "raw_score q p =
     (3 / 10) * of_nat (length (matched_tags q p))
     + (if str_includes (toLowerCase q) (toLowerCase (name p)) then 2 / 10 else 0)
     + (if str_includes (toLowerCase q) (toLowerCase (problem p)) \<or>
           str_includes (toLowerCase (problem p)) (toLowerCase q)
        then 2 / 10 else 0)"

definition spec_relevance :: "string \<Rightarrow> Pattern \<Rightarrow> number" where
  "spec_relevance q p = min 1 (confidence p * raw_score q p)"

definition spec_reason :: "string \<Rightarrow> Pattern \<Rightarrow> string" where
  "spec_reason q p =
     (if matched_tags q p \<noteq> []
      then ''Matches contexts: '' @ join '', '' (matched_tags q p)
      else ''Partial match on name or problem'')"

definition spec_result :: "string \<Rightarrow> Pattern \<Rightarrow> PatternSearchResult" where
  "spec_result q p = \<lparr> pattern = p, relevance = spec_relevance q p, reason = spec_reason q p \<rparr>"

definition spec_search :: "string \<Rightarrow> Pattern list \<Rightarrow> PatternSearchResult list" where
  "spec_search q ps =
     sort_descending relevance (map (spec_result q) (filter (\<lambda>p. 0 < spec_relevance q p) ps))"

definition descending :: "number list \<Rightarrow> bool" where
  "descending xs = sorted_wrt (\<lambda>a b. b \<le> a) xs"

text \<open>Reinforcement, as the specification words it; and a sequence of reinforcing calls.\<close>

definition clamp :: "number \<Rightarrow> number \<Rightarrow> number \<Rightarrow> number" where
  "clamp x lo hi = (if x < lo then lo else if hi < x then hi else x)"

definition reinforced :: "bool \<Rightarrow> Pattern \<Rightarrow> Pattern" where
  "reinforced succeeded p =
     p\<lparr>confidence := clamp (confidence p + (if succeeded then 5 / 100 else - (2 / 100))) (1 / 10) 1\<rparr>"

definition in_range :: "number \<Rightarrow> bool" where
  "in_range c = (1 / 10 \<le> c \<and> c \<le> 1)"

definition reinforceAll :: "(string \<times> bool) list \<Rightarrow> PatternStore \<Rightarrow> PatternStore" where
  "reinforceAll calls s = fold (\<lambda>(i, succeeded). reinforcePattern i succeeded) calls s"

definition pg_reinforceAll :: "(Date \<times> string \<times> bool) list \<Rightarrow> Database \<Rightarrow> Database" where
  "pg_reinforceAll calls db = fold (\<lambda>(now, i, succeeded). pg_reinforcePattern now i succeeded) calls db"


definition touch_row :: "Date \<Rightarrow> PatternRow \<Rightarrow> PatternRow" where
  "touch_row now row = row\<lparr>row_usage_count := row_usage_count row + 1,
                             row_last_used_at := Some now,
                             row_updated_at := now\<rparr>"




text \<open>The number of episodes whose context has the token \<open>w\<close>.\<close>

definition document_frequency :: "string \<Rightarrow> Episode list \<Rightarrow> nat" where
  "document_frequency w eps =
     length (filter (\<lambda>ep. w \<in> set (split_ws (toLowerCase (episode_context ep)))) eps)"

text \<open>
  The tokens longer than three characters of all contexts, in order and with their
  repetitions; the number of occurrences of a token among them; the count a map of
  counters has for a key.
\<close>

definition long_tokens :: "Episode list \<Rightarrow> string list" where
  "long_tokens eps =
     concat (map (\<lambda>ep. filter (\<lambda>w. 3 < length w) (split_ws (toLowerCase (episode_context ep)))) eps)"

definition occurrences :: "string \<Rightarrow> Episode list \<Rightarrow> nat" where
  "occurrences w eps = count_list (long_tokens eps) w"

definition count_of :: "(string \<times> nat) list \<Rightarrow> string \<Rightarrow> nat" where
  "count_of m k = (case Map_get m k of None \<Rightarrow> 0 | Some n \<Rightarrow> n)"

section \<open>Example data\<close>

definition ep1 :: Episode where
  "ep1 = \<lparr> episode_id = ''ep-1'', timestamp = 1, episode_context = ''User asked about recursion'',
            actions = [''Explained with simple example'', ''Built up complexity gradually''],
            outcome = ''User understood the concept'', patternIds = [] \<rparr>"

definition ep2 :: Episode where
  "ep2 = \<lparr> episode_id = ''ep-2'', timestamp = 2, episode_context = ''debugging a loop'',
            actions = [''Read the trace''],
            outcome = ''Solved after an ERROR'', patternIds = [] \<rparr>"

text \<open>The store that \<open>PatternStore.create()\<close> yields when no snapshot file exists.\<close>

definition fresh_store :: PatternStore where
  "fresh_store = initialize 1000 \<lparr> patterns = [], episodes = [] \<rparr>"


text \<open>A pattern saved with a confidence above the range of the data model.\<close>

definition hot_pattern :: Pattern where
  "hot_pattern =
     \<lparr> pattern_id = ''hot'', name = ''Hot'', pattern_context = [''tag''],
       problem = ''p'', solution = ''s'', examples = [], relations = [],
       confidence = 6, usageCount = 0, createdAt = 1, lastUsedAt = None \<rparr>"


text \<open>The first of the two sample patterns.\<close>

definition seed1 :: Pattern where "seed1 = hd (samplePatterns 1000)"

text \<open>Two episodes that did not go well, and a store that holds them.\<close>

definition ep3 :: Episode where
  "ep3 = \<lparr> episode_id = ''ep-3'', timestamp = 3, episode_context = ''explaining pointers quickly'',
            actions = [''Gave the definition'', ''Moved on''],
            outcome = ''User was confused'', patternIds = [] \<rparr>"

definition ep4 :: Episode where
  "ep4 = \<lparr> episode_id = ''ep-4'', timestamp = 4, episode_context = ''explaining closures quickly'',
            actions = [''Gave the definition'', ''Moved on''],
            outcome = ''Gave up halfway'', patternIds = [] \<rparr>"

definition struggling_store :: PatternStore where
  "struggling_store = saveEpisode ep4 (saveEpisode ep3 fresh_store)"

text \<open>A database that holds the two sample patterns.\<close>

definition sample_database :: Database where
  "sample_database =
     \<lparr> patterns_table =
         [\<lparr> row_id = ''progressive-disclosure'', row_name = ''Progressive Disclosure'',
             row_context = [''user is learning'', ''complex topic'', ''beginner level''],
             row_problem = ''Too much information at once overwhelms the learner'',
             row_solution = ''Reveal complexity gradually, starting with core concepts'',
             row_examples = Some [], row_relations = Some [],
             row_confidence = 85, row_usage_count = 0, row_created_at = 1000,
             row_last_used_at = None, row_updated_at = 1000 \<rparr>,
          \<lparr> row_id = ''concrete-before-abstract'', row_name = ''Concrete Before Abstract'',
             row_context = [''teaching concept'', ''abstract idea'', ''user struggling''],
             row_problem = ''Abstract concepts are hard to grasp without grounding'',
             row_solution = ''Provide concrete examples before explaining the abstraction'',
             row_examples = Some [], row_relations = None,
             row_confidence = 90, row_usage_count = 0, row_created_at = 1000,
             row_last_used_at = None, row_updated_at = 1000 \<rparr>],
       episodes_table = [] \<rparr>"




text \<open>Four episodes; the context of the first repeats its one long word.\<close>

definition short_episode :: "string \<Rightarrow> string \<Rightarrow> Episode" where
  "short_episode i c =
     \<lparr> episode_id = i, timestamp = 1, episode_context = c, actions = [],
       outcome = ''done'', patternIds = [] \<rparr>"

definition repeated_episodes :: "Episode list" where
  "repeated_episodes =
     [short_episode ''ep-a'' ''Retry retry'', short_episode ''ep-b'' ''run it'',
      short_episode ''ep-c'' ''fix it'', short_episode ''ep-d'' ''try ok'']"

section \<open>Pattern extraction: outcome categories and initial confidence\<close>

lemma categorizeOutcome_success_iff:
  "categorizeOutcome t = success \<longleftrightarrow> mentions_any success_words t"
  by (simp add: categorizeOutcome_def mentions_any_def success_words_def Let_def)

lemma extractPattern_Some_confidence:
  "2 \<le> length eps \<Longrightarrow>
   \<exists>p. extractPattern eps nm prob now = Some p \<and>
       confidence p = min (9 / 10) (of_nat (success_count eps) / of_nat (length eps))"
  by (simp add: extractPattern_def Let_def success_count_def categorizeOutcome_success_iff)

text \<open>
  Claim C3. For a list of at least two episodes, \<open>extractPattern\<close> returns a pattern
  whose confidence is \<open>min(0.9, s/n)\<close>, where \<open>n\<close> is the number of episodes and
  \<open>s\<close> the number of those whose outcome, lower-cased, contains one of "success",
  "understood", "completed", "solved". Containing such a word is exactly what makes an
  outcome categorize as \<open>success\<close>, whatever failure words it also contains. With exactly
  two episodes, both with such an outcome, the confidence is 0.9.
\<close>

theorem extractPattern_confidence:
  "2 \<le> length eps \<Longrightarrow>
   (\<exists>p. extractPattern eps nm prob now = Some p \<and>
        confidence p = min (9 / 10) (of_nat (success_count eps) / of_nat (length eps))) \<and>
   (\<forall>ep \<in> set eps. categorizeOutcome (outcome ep) = success \<longleftrightarrow>
                     mentions_any success_words (outcome ep)) \<and>
   (length eps = 2 \<and> (\<forall>ep \<in> set eps. mentions_any success_words (outcome ep)) \<longrightarrow>
      (\<exists>p. extractPattern eps nm prob now = Some p \<and> confidence p = 9 / 10))"
proof (intro conjI)
  assume len: "2 \<le> length eps"
  show main: "\<exists>p. extractPattern eps nm prob now = Some p \<and>
        confidence p = min (9 / 10) (of_nat (success_count eps) / of_nat (length eps))"
    using len by (rule extractPattern_Some_confidence)
  show "\<forall>ep \<in> set eps. categorizeOutcome (outcome ep) = success \<longleftrightarrow>
                     mentions_any success_words (outcome ep)"
    by (simp add: categorizeOutcome_success_iff)
  show "length eps = 2 \<and> (\<forall>ep \<in> set eps. mentions_any success_words (outcome ep)) \<longrightarrow>
      (\<exists>p. extractPattern eps nm prob now = Some p \<and> confidence p = 9 / 10)"
  proof
    assume h: "length eps = 2 \<and> (\<forall>ep \<in> set eps. mentions_any success_words (outcome ep))"
    then have "filter (\<lambda>ep. mentions_any success_words (outcome ep)) eps = eps"
      by (simp add: filter_id_conv)
    then have "success_count eps = 2"
      using h by (simp add: success_count_def)
    with main h show "\<exists>p. extractPattern eps nm prob now = Some p \<and> confidence p = 9 / 10"
      by simp
  qed
qed

theorem extractPattern_confidence_witness:
  "(2::nat) \<le> length [ep1, ep2] \<and>
   categorizeOutcome (outcome ep2) = success \<and>
   (\<exists>p. extractPattern [ep1, ep2] ''Trace first'' ''Loops are opaque'' 7 = Some p \<and>
        confidence p = 9 / 10)"
proof -
  have len: "(2::nat) \<le> length [ep1, ep2]" by simp
  have m1: "mentions_any success_words (outcome ep1)"
    by (simp add: ep1_def mentions_any_def success_words_def toLowerCase_def toLowerChar_def)
  have m2: "mentions_any success_words (outcome ep2)"
    by (simp add: ep2_def mentions_any_def success_words_def toLowerCase_def toLowerChar_def)
  from extractPattern_confidence [OF len, of "''Trace first''" "''Loops are opaque''" 7] m1 m2 len
  show ?thesis by simp
qed

section \<open>Pattern search\<close>

lemma tag_loop:
  "fold (\<lambda>patternContext (rel, matched).
           if P patternContext then (rel + 3 / 10, matched @ [patternContext]) else (rel, matched))
        tags (r0, m0)
   = (r0 + (3 / 10) * of_nat (length (filter P tags)), m0 @ filter P tags)"
  by (induction tags arbitrary: r0 m0) (simp_all add: algebra_simps)

lemma raw_score_nonneg: "0 \<le> raw_score q p"
  by (simp add: raw_score_def)

lemma scorePattern_spec:
  "scorePattern q p =
     (if 0 < confidence p * raw_score q p then Some (spec_result q p) else None)"
  unfolding scorePattern_def Let_def tag_loop
  by (simp add: raw_score_def matched_tags_def spec_result_def spec_relevance_def spec_reason_def
      min.commute algebra_simps)

lemma push_loop:
  "fold (\<lambda>p results. case f p of None \<Rightarrow> results | Some r \<Rightarrow> results @ [r]) ps acc
   = acc @ List.map_filter f ps"
  by (induction ps arbitrary: acc) (simp_all split: option.split)

lemma positive_relevance:
  "0 < confidence p * raw_score q p \<longleftrightarrow> 0 < spec_relevance q p"
  by (simp add: spec_relevance_def)

lemma map_filter_if:
  "List.map_filter (\<lambda>x. if P x then Some (g x) else None) xs = map g (filter P xs)"
  by (induction xs) simp_all

lemma searchOver_spec: "searchOver ps q = spec_search q ps"
proof -
  have "scorePattern q = (\<lambda>p. if 0 < spec_relevance q p then Some (spec_result q p) else None)"
    by (rule ext) (simp add: scorePattern_spec positive_relevance)
  then show ?thesis
    unfolding searchOver_def Let_def push_loop spec_search_def
    by (simp add: map_filter_if)
qed


lemma set_spec_search:
  "set (spec_search q ps) = spec_result q ` {p \<in> set ps. 0 < spec_relevance q p}"
  by (simp add: spec_search_def sort_descending_def)



section \<open>Searching with the empty query\<close>

lemma str_includes_Nil_right [simp]: "str_includes s []"
  by (cases s) simp_all

lemma toLowerCase_eq_Nil [simp]: "toLowerCase s = [] \<longleftrightarrow> s = []"
  by (simp add: toLowerCase_def)

lemma toLowerCase_Nil [simp]: "toLowerCase [] = []"
  by (simp add: toLowerCase_def)

lemma Map_get_Map_set_same: "Map_get (Map_set k v m) k = Some v"
  by (induction m) (auto simp: Map_get_def)

lemma Map_get_Map_set_other: "j \<noteq> k \<Longrightarrow> Map_get (Map_set k v m) j = Map_get m j"
  by (induction m) (auto simp: Map_get_def)








section \<open>Patterns extracted from episodes without a success\<close>

lemma result_confidence_positive:
  "r \<in> set (searchOver ps q) \<Longrightarrow> 0 < confidence (pattern r)"
proof -
  assume "r \<in> set (searchOver ps q)"
  then obtain p where r: "r = spec_result q p" and pos: "0 < spec_relevance q p"
    by (auto simp: searchOver_spec set_spec_search)
  from pos have "0 < confidence p * raw_score q p"
    by (simp add: spec_relevance_def)
  with raw_score_nonneg [of q p] have "0 < confidence p"
    by (simp add: zero_less_mult_iff)
  with r show ?thesis by (simp add: spec_result_def)
qed

lemma zero_confidence_not_found:
  "confidence p = 0 \<Longrightarrow> p \<notin> pattern ` set (searchOver ps q)"
  using result_confidence_positive [of _ ps q] by force

lemma getPattern_savePattern: "getPattern (savePattern p s) (pattern_id p) = Some p"
  by (simp add: getPattern_def savePattern_def Map_get_Map_set_same)

lemma extractPatternFromEpisodes_Some:
  assumes "extractPattern (List.map_filter (Map_get (episodes s)) ids) nm prob now = Some p"
  shows "\<exists>rels. extractPatternFromEpisodes now ids nm prob s =
                  (Some (p\<lparr>relations := rels\<rparr>), savePattern (p\<lparr>relations := rels\<rparr>) s)"
proof -
  from assms have "\<not> length (List.map_filter (Map_get (episodes s)) ids) < 2"
    by (auto simp: extractPattern_def split: if_splits)
  with assms have "extractPatternFromEpisodes now ids nm prob s =
     (Some (p\<lparr>relations := map (\<lambda>i. \<lparr> relation_type = leads_to, patternId = i, strength = 5 / 10 \<rparr>)
                                  (findRelatedPatterns p (Map_values (patterns s)))\<rparr>),
      savePattern (p\<lparr>relations := map (\<lambda>i. \<lparr> relation_type = leads_to, patternId = i, strength = 5 / 10 \<rparr>)
                                  (findRelatedPatterns p (Map_values (patterns s)))\<rparr>) s)"
    by (simp add: extractPatternFromEpisodes_def Let_def)
  then show ?thesis by blast
qed

text \<open>
  Claim C9. When no outcome of at least two episodes categorizes as \<open>success\<close>,
  \<open>extractPattern\<close> returns a pattern of confidence exactly 0, below the floor 0.1
  of the data model. For every query such a pattern has relevance 0, the loop of
  \<open>searchPatterns\<close> pushes nothing for it, and no search result of either store holds
  it; this is also so for the pattern that \<open>extractPatternFromEpisodes\<close> returns and
  saves in the store.
\<close>

theorem unsuccessful_extraction_never_found:
  assumes "2 \<le> length eps" "\<forall>ep \<in> set eps. categorizeOutcome (outcome ep) \<noteq> success"
  shows "\<exists>p. extractPattern eps nm prob now = Some p \<and> confidence p = 0 \<and> confidence p < 1 / 10 \<and>
             (\<forall>q. spec_relevance q p = 0 \<and> scorePattern q p = None) \<and>
             (\<forall>s q. p \<notin> pattern ` set (searchPatterns s q)) \<and>
             (\<forall>db q. p \<notin> pattern ` set (pg_searchPatterns db q)) \<and>
             (\<forall>s ids. List.map_filter (Map_get (episodes s)) ids = eps \<longrightarrow>
                (\<exists>p' s'. extractPatternFromEpisodes now ids nm prob s = (Some p', s') \<and>
                         confidence p' = 0 \<and>
                         getPattern s' (pattern_id p') = Some p' \<and>
                         (\<forall>q. p' \<notin> pattern ` set (searchPatterns s' q))))"
proof -
  from assms(2) have "filter (\<lambda>ep. mentions_any success_words (outcome ep)) eps = []"
    by (simp add: filter_empty_conv categorizeOutcome_success_iff)
  then have "success_count eps = 0" by (simp add: success_count_def)
  with extractPattern_Some_confidence [OF assms(1), of nm prob now]
  obtain p where p: "extractPattern eps nm prob now = Some p" and c: "confidence p = 0"
    by auto
  have rel: "\<forall>q. spec_relevance q p = 0 \<and> scorePattern q p = None"
    using c by (simp add: spec_relevance_def scorePattern_spec)
  have js: "\<forall>s q. p \<notin> pattern ` set (searchPatterns s q)"
    unfolding searchPatterns_def using zero_confidence_not_found [OF c] by blast
  have pg: "\<forall>db q. p \<notin> pattern ` set (pg_searchPatterns db q)"
    unfolding pg_searchPatterns_def using zero_confidence_not_found [OF c] by blast
  have st: "\<forall>s ids. List.map_filter (Map_get (episodes s)) ids = eps \<longrightarrow>
                (\<exists>p' s'. extractPatternFromEpisodes now ids nm prob s = (Some p', s') \<and>
                         confidence p' = 0 \<and>
                         getPattern s' (pattern_id p') = Some p' \<and>
                         (\<forall>q. p' \<notin> pattern ` set (searchPatterns s' q)))"
  proof (intro allI impI)
    fix s :: PatternStore and ids :: "string list"
    assume "List.map_filter (Map_get (episodes s)) ids = eps"
    with p have "extractPattern (List.map_filter (Map_get (episodes s)) ids) nm prob now = Some p"
      by simp
    from extractPatternFromEpisodes_Some [OF this]
    obtain rels where e: "extractPatternFromEpisodes now ids nm prob s =
                  (Some (p\<lparr>relations := rels\<rparr>), savePattern (p\<lparr>relations := rels\<rparr>) s)"
      by blast
    let ?p' = "p\<lparr>relations := rels\<rparr>"
    have c': "confidence ?p' = 0" using c by simp
    have "\<forall>q. ?p' \<notin> pattern ` set (searchPatterns (savePattern ?p' s) q)"
      unfolding searchPatterns_def using zero_confidence_not_found [OF c'] by blast
    with e c' getPattern_savePattern [of ?p' s]
    show "\<exists>p' s'. extractPatternFromEpisodes now ids nm prob s = (Some p', s') \<and>
                         confidence p' = 0 \<and>
                         getPattern s' (pattern_id p') = Some p' \<and>
                         (\<forall>q. p' \<notin> pattern ` set (searchPatterns s' q))"
      by blast
  qed
  from p c rel js pg st show ?thesis by simp
qed



theorem unsuccessful_extraction_never_found_witness:
  "(2::nat) \<le> length [ep3, ep4] \<and>
   categorizeOutcome (outcome ep3) \<noteq> success \<and>
   categorizeOutcome (outcome ep4) \<noteq> success \<and>
   List.map_filter (Map_get (episodes struggling_store)) [''ep-3'', ''ep-4''] = [ep3, ep4] \<and>
   (\<exists>p' s'. extractPatternFromEpisodes 2000 [''ep-3'', ''ep-4''] ''Rush'' ''explaining pointers'' struggling_store
               = (Some p', s') \<and>
            confidence p' = 0 \<and>
            getPattern s' (pattern_id p') = Some p' \<and>
            p' \<notin> pattern ` set (searchPatterns s' ''explaining pointers''))"
proof -
  have a: "(2::nat) \<le> length [ep3, ep4]" by simp
  have b: "\<forall>ep \<in> set [ep3, ep4]. categorizeOutcome (outcome ep) \<noteq> success"
    by (simp add: ep3_def ep4_def categorizeOutcome_def toLowerCase_def toLowerChar_def)
  have c: "List.map_filter (Map_get (episodes struggling_store)) [''ep-3'', ''ep-4''] = [ep3, ep4]"
    by code_simp
  from b have b3: "categorizeOutcome (outcome ep3) \<noteq> success"
    and b4: "categorizeOutcome (outcome ep4) \<noteq> success"
    by simp_all
  from unsuccessful_extraction_never_found [OF a b, of "''Rush''" "''explaining pointers''" 2000] a b3 b4 c
  show ?thesis by blast
qed

section \<open>Extraction from fewer than two episodes\<close>

lemma length_map_filter_le: "length (List.map_filter f xs) \<le> length xs"
  by (simp add: List.map_filter_def)

text \<open>
  Claim C8. \<open>extractPattern\<close> returns \<open>null\<close> for fewer than two episodes. When
  fewer than two of the ids given to \<open>extractPatternFromEpisodes\<close> resolve to stored
  episodes, and so whenever fewer than two ids are given, the result is \<open>null\<close> and
  the store is the one before the call: nothing is saved. Both are values returned, not
  exceptions.
\<close>

theorem too_few_episodes:
  "(length eps < 2 \<longrightarrow> extractPattern eps nm prob now = None) \<and>
   (length (List.map_filter (Map_get (episodes s)) ids) < 2 \<longrightarrow>
      extractPatternFromEpisodes now ids nm prob s = (None, s)) \<and>
   (length ids < 2 \<longrightarrow> extractPatternFromEpisodes now ids nm prob s = (None, s))"
proof (intro conjI impI)
  assume "length eps < 2"
  then show "extractPattern eps nm prob now = None"
    by (simp add: extractPattern_def)
next
  assume "length (List.map_filter (Map_get (episodes s)) ids) < 2"
  then show "extractPatternFromEpisodes now ids nm prob s = (None, s)"
    by (simp add: extractPatternFromEpisodes_def Let_def)
next
  assume "length ids < 2"
  with length_map_filter_le [of "Map_get (episodes s)" ids]
  have "length (List.map_filter (Map_get (episodes s)) ids) < 2" by simp
  then show "extractPatternFromEpisodes now ids nm prob s = (None, s)"
    by (simp add: extractPatternFromEpisodes_def Let_def)
qed

theorem too_few_episodes_witness:
  "length [ep3] < 2 \<and> extractPattern [ep3] ''Rush'' ''explaining pointers'' 2000 = None \<and>
   length (List.map_filter (Map_get (episodes struggling_store)) [''ep-3'', ''ep-9'', ''ep-7'']) < 2 \<and>
   extractPatternFromEpisodes 2000 [''ep-3'', ''ep-9'', ''ep-7''] ''Rush'' ''explaining pointers'' struggling_store
     = (None, struggling_store) \<and>
   length [''ep-3''] < 2 \<and>
   extractPatternFromEpisodes 2000 [''ep-3''] ''Rush'' ''explaining pointers'' struggling_store
     = (None, struggling_store)"
proof -
  have a: "length [ep3] < 2" by simp
  have b: "length (List.map_filter (Map_get (episodes struggling_store)) [''ep-3'', ''ep-9'', ''ep-7'']) < 2"
    by code_simp
  have c: "length [''ep-3''] < 2" by simp
  from too_few_episodes [of "[ep3]" "''Rush''" "''explaining pointers''" 2000 struggling_store
                            "[''ep-3'', ''ep-9'', ''ep-7'']"]
       too_few_episodes [of "[ep3]" "''Rush''" "''explaining pointers''" 2000 struggling_store
                            "[''ep-3'']"] a b c
  show ?thesis by blast
qed

section \<open>Reinforcement\<close>

lemma max_min_clamp: "max (1 / 10) (min 1 x) = clamp x (1 / 10) (1::number)"
  by (simp add: clamp_def max_def min_def)

lemma in_range_clamp: "in_range (clamp x (1 / 10) 1)"
  by (simp add: clamp_def in_range_def)

lemma reinforcePattern_known:
  "getPattern s i = Some p \<Longrightarrow> getPattern (reinforcePattern i b s) i = Some (reinforced b p)"
  by (simp add: getPattern_def reinforcePattern_def Let_def Map_get_Map_set_same reinforced_def
      max_min_clamp)

lemma reinforcePattern_unknown:
  "getPattern s i = None \<Longrightarrow> reinforcePattern i b s = s"
  by (simp add: getPattern_def reinforcePattern_def)

lemma reinforcePattern_other:
  "j \<noteq> i \<Longrightarrow> getPattern (reinforcePattern i b s) j = getPattern s j"
  by (simp add: getPattern_def reinforcePattern_def Let_def Map_get_Map_set_other
      split: option.split)

lemma reinforcePattern_keeps_range:
  assumes "getPattern s j = Some p" "in_range (confidence p)"
  shows "\<exists>p'. getPattern (reinforcePattern i b s) j = Some p' \<and> in_range (confidence p')"
proof (cases "j = i")
  case True
  with assms(1) have "getPattern (reinforcePattern i b s) j = Some (reinforced b p)"
    by (simp add: reinforcePattern_known)
  then show ?thesis by (simp add: reinforced_def in_range_clamp)
next
  case False
  with assms show ?thesis by (simp add: reinforcePattern_other)
qed

lemma reinforceAll_keeps_range:
  "getPattern s j = Some p \<Longrightarrow> in_range (confidence p) \<Longrightarrow>
   \<exists>p'. getPattern (reinforceAll calls s) j = Some p' \<and> in_range (confidence p')"
proof (induction calls arbitrary: s p)
  case Nil
  then show ?case by (simp add: reinforceAll_def)
next
  case (Cons c calls)
  obtain i b where c: "c = (i, b)" by (cases c)
  from reinforcePattern_keeps_range [OF Cons.prems, of i b]
  obtain p1 where "getPattern (reinforcePattern i b s) j = Some p1" "in_range (confidence p1)"
    by blast
  from Cons.IH [OF this] show ?case by (simp add: reinforceAll_def c)
qed

lemma hundredths_clamp:
  "(of_int (min 100 (max 10 (k + (if b then 5 else - 2)))) :: number) / 100
   = clamp (of_int k / 100 + (if b then 5 / 100 else - (2 / 100))) (1 / 10) 1"
  by (cases b) (auto simp: clamp_def min_def max_def field_simps)

lemma pg_filter_reinforce:
  "filter (\<lambda>row. row_id row = j) (patterns_table (pg_reinforcePattern now i b db))
   = map (\<lambda>row. if row_id row = i
                 then row\<lparr>row_confidence := min 100 (max 10 (row_confidence row + (if b then 5 else - 2))),
                           row_updated_at := now\<rparr>
                 else row)
         (filter (\<lambda>row. row_id row = j) (patterns_table db))"
  by (simp add: pg_reinforcePattern_def Let_def filter_map comp_def if_distrib cong: if_cong)

lemma rowToPattern_reinforce:
  "rowToPattern (row\<lparr>row_confidence := min 100 (max 10 (row_confidence row + (if b then 5 else - 2))),
                     row_updated_at := now\<rparr>)
   = reinforced b (rowToPattern row)"
  unfolding rowToPattern_def reinforced_def
  by (simp add: hundredths_clamp)

lemma pg_reinforcePattern_known:
  assumes "pg_getPattern db i = Some p"
  shows "pg_getPattern (pg_reinforcePattern now i b db) i = Some (reinforced b p)"
proof -
  from assms obtain row rest
    where f: "filter (\<lambda>row. row_id row = i) (patterns_table db) = row # rest"
      and p: "p = rowToPattern row"
    by (auto simp: pg_getPattern_def split: list.splits)
  from f have "row \<in> set (filter (\<lambda>row. row_id row = i) (patterns_table db))" by simp
  then have i: "row_id row = i" by simp
  show ?thesis
    unfolding pg_getPattern_def pg_filter_reinforce f
    using i by (simp add: rowToPattern_reinforce p)
qed

lemma pg_reinforcePattern_other:
  "j \<noteq> i \<Longrightarrow> pg_getPattern (pg_reinforcePattern now i b db) j = pg_getPattern db j"
proof -
  assume "j \<noteq> i"
  then have "map (\<lambda>row. if row_id row = i
                 then row\<lparr>row_confidence := min 100 (max 10 (row_confidence row + (if b then 5 else - 2))),
                           row_updated_at := now\<rparr>
                 else row)
         (filter (\<lambda>row. row_id row = j) (patterns_table db))
        = filter (\<lambda>row. row_id row = j) (patterns_table db)"
    by (intro map_idI) auto
  then show ?thesis
    unfolding pg_getPattern_def pg_filter_reinforce by simp
qed

lemma pg_reinforcePattern_unknown:
  "pg_getPattern db i = None \<Longrightarrow> pg_reinforcePattern now i b db = db"
proof -
  assume "pg_getPattern db i = None"
  then have "filter (\<lambda>row. row_id row = i) (patterns_table db) = []"
    by (simp add: pg_getPattern_def split: list.splits)
  then have "\<forall>row \<in> set (patterns_table db). row_id row \<noteq> i"
    by (simp add: filter_empty_conv)
  then have "map (\<lambda>row. if row_id row = i
                 then row\<lparr>row_confidence := min 100 (max 10 (row_confidence row + (if b then 5 else - 2))),
                           row_updated_at := now\<rparr>
                 else row) (patterns_table db) = patterns_table db"
    by (intro map_idI) auto
  then show ?thesis by (simp add: pg_reinforcePattern_def Let_def)
qed

lemma pg_reinforcePattern_keeps_range:
  assumes "pg_getPattern db j = Some p" "in_range (confidence p)"
  shows "\<exists>p'. pg_getPattern (pg_reinforcePattern now i b db) j = Some p' \<and> in_range (confidence p')"
proof (cases "j = i")
  case True
  with assms(1) have "pg_getPattern (pg_reinforcePattern now i b db) j = Some (reinforced b p)"
    by (simp add: pg_reinforcePattern_known)
  then show ?thesis by (simp add: reinforced_def in_range_clamp)
next
  case False
  with assms show ?thesis by (simp add: pg_reinforcePattern_other)
qed

lemma pg_reinforceAll_keeps_range:
  "pg_getPattern db j = Some p \<Longrightarrow> in_range (confidence p) \<Longrightarrow>
   \<exists>p'. pg_getPattern (pg_reinforceAll calls db) j = Some p' \<and> in_range (confidence p')"
proof (induction calls arbitrary: db p)
  case Nil
  then show ?case by (simp add: pg_reinforceAll_def)
next
  case (Cons c calls)
  obtain now i b where c: "c = (now, i, b)" by (cases c)
  from pg_reinforcePattern_keeps_range [OF Cons.prems, of now i b]
  obtain p1 where "pg_getPattern (pg_reinforcePattern now i b db) j = Some p1" "in_range (confidence p1)"
    by blast
  from Cons.IH [OF this] show ?case by (simp add: pg_reinforceAll_def c)
qed


text \<open>
  Claim C2. In both stores a call of \<open>reinforcePattern\<close> for a stored id sets the
  confidence of that pattern to \<open>clamp(old + 0.05, 0.1, 1.0)\<close> when \<open>success\<close> is
  true and to \<open>clamp(old - 0.02, 0.1, 1.0)\<close> when it is false, and changes nothing
  else of the pattern; it leaves the patterns of other ids as they are; for an unknown
  id it returns the store unchanged. A pattern whose confidence is in \<open>[0.1, 1.0]\<close>
  has its confidence there after any sequence of such calls.
\<close>

theorem reinforcePattern_confidence:
  "(getPattern s i = Some p \<longrightarrow>
      getPattern (reinforcePattern i b s) i = Some (reinforced b p)) \<and>
   (getPattern s i = None \<longrightarrow> reinforcePattern i b s = s) \<and>
   (j \<noteq> i \<longrightarrow> getPattern (reinforcePattern i b s) j = getPattern s j) \<and>
   (getPattern s j = Some q \<and> in_range (confidence q) \<longrightarrow>
      (\<exists>q'. getPattern (reinforceAll calls s) j = Some q' \<and> in_range (confidence q'))) \<and>
   (pg_getPattern db i = Some p \<longrightarrow>
      pg_getPattern (pg_reinforcePattern now i b db) i = Some (reinforced b p)) \<and>
   (pg_getPattern db i = None \<longrightarrow> pg_reinforcePattern now i b db = db) \<and>
   (j \<noteq> i \<longrightarrow> pg_getPattern (pg_reinforcePattern now i b db) j = pg_getPattern db j) \<and>
   (pg_getPattern db j = Some q \<and> in_range (confidence q) \<longrightarrow>
      (\<exists>q'. pg_getPattern (pg_reinforceAll pg_calls db) j = Some q' \<and> in_range (confidence q')))"
proof (intro conjI impI)
  assume "getPattern s i = Some p"
  then show "getPattern (reinforcePattern i b s) i = Some (reinforced b p)"
    by (rule reinforcePattern_known)
next
  assume "getPattern s i = None"
  then show "reinforcePattern i b s = s" by (rule reinforcePattern_unknown)
next
  assume "j \<noteq> i"
  then show "getPattern (reinforcePattern i b s) j = getPattern s j"
    by (rule reinforcePattern_other)
next
  assume "getPattern s j = Some q \<and> in_range (confidence q)"
  then show "\<exists>q'. getPattern (reinforceAll calls s) j = Some q' \<and> in_range (confidence q')"
    using reinforceAll_keeps_range [of s j q calls] by (elim conjE)
next
  assume "pg_getPattern db i = Some p"
  then show "pg_getPattern (pg_reinforcePattern now i b db) i = Some (reinforced b p)"
    by (rule pg_reinforcePattern_known)
next
  assume "pg_getPattern db i = None"
  then show "pg_reinforcePattern now i b db = db" by (rule pg_reinforcePattern_unknown)
next
  assume "j \<noteq> i"
  then show "pg_getPattern (pg_reinforcePattern now i b db) j = pg_getPattern db j"
    by (rule pg_reinforcePattern_other)
next
  assume "pg_getPattern db j = Some q \<and> in_range (confidence q)"
  then show "\<exists>q'. pg_getPattern (pg_reinforceAll pg_calls db) j = Some q' \<and> in_range (confidence q')"
    using pg_reinforceAll_keeps_range [of db j q pg_calls] by (elim conjE)
qed

theorem reinforcePattern_confidence_witness:
  "getPattern fresh_store ''progressive-disclosure'' = Some seed1 \<and> in_range (confidence seed1) \<and>
   getPattern (reinforcePattern ''progressive-disclosure'' True fresh_store) ''progressive-disclosure''
     = Some (seed1\<lparr>confidence := 9 / 10\<rparr>) \<and>
   getPattern fresh_store ''no-such-pattern'' = None \<and>
   reinforcePattern ''no-such-pattern'' True fresh_store = fresh_store \<and>
   (\<exists>q'. getPattern (reinforceAll [(''progressive-disclosure'', True), (''progressive-disclosure'', False)]
                                   fresh_store) ''progressive-disclosure'' = Some q' \<and>
         in_range (confidence q')) \<and>
   pg_getPattern sample_database ''no-such-pattern'' = None \<and>
   pg_reinforcePattern 2000 ''no-such-pattern'' False sample_database = sample_database"
proof -
  have a: "getPattern fresh_store ''progressive-disclosure'' = Some seed1" by code_simp
  have b: "in_range (confidence seed1)" by code_simp
  have c: "getPattern fresh_store ''no-such-pattern'' = None" by code_simp
  have d: "pg_getPattern sample_database ''no-such-pattern'' = None" by code_simp
  have e: "reinforced True seed1 = seed1\<lparr>confidence := 9 / 10\<rparr>" by code_simp
  note t1 = reinforcePattern_confidence [of fresh_store "''progressive-disclosure''" seed1 True
      "''progressive-disclosure''" seed1
      "[(''progressive-disclosure'', True), (''progressive-disclosure'', False)]"
      sample_database 2000 "[]"]
  note t2 = reinforcePattern_confidence [of fresh_store "''no-such-pattern''" seed1 True
      "''progressive-disclosure''" seed1 "[]" sample_database 2000 "[]"]
  note t3 = reinforcePattern_confidence [of fresh_store "''no-such-pattern''" seed1 False
      "''progressive-disclosure''" seed1 "[]" sample_database 2000 "[]"]
  from t1 have "getPattern fresh_store ''progressive-disclosure'' = Some seed1 \<longrightarrow>
                getPattern (reinforcePattern ''progressive-disclosure'' True fresh_store)
                    ''progressive-disclosure'' = Some (reinforced True seed1)"
    by (rule conjunct1)
  with a have "getPattern (reinforcePattern ''progressive-disclosure'' True fresh_store)
                    ''progressive-disclosure'' = Some (reinforced True seed1)"
    by (elim mp)
  then have f: "getPattern (reinforcePattern ''progressive-disclosure'' True fresh_store)
                    ''progressive-disclosure'' = Some (seed1\<lparr>confidence := 9 / 10\<rparr>)"
    by (simp only: e)
  from t2 have "getPattern fresh_store ''no-such-pattern'' = None \<longrightarrow>
                reinforcePattern ''no-such-pattern'' True fresh_store = fresh_store"
    by (elim conjE)
  with c have g: "reinforcePattern ''no-such-pattern'' True fresh_store = fresh_store"
    by (elim mp)
  from t1 have "getPattern fresh_store ''progressive-disclosure'' = Some seed1 \<and> in_range (confidence seed1) \<longrightarrow>
      (\<exists>q'. getPattern (reinforceAll [(''progressive-disclosure'', True), (''progressive-disclosure'', False)]
                                   fresh_store) ''progressive-disclosure'' = Some q' \<and>
         in_range (confidence q'))"
    by (elim conjE)
  with a b have h: "\<exists>q'. getPattern (reinforceAll [(''progressive-disclosure'', True), (''progressive-disclosure'', False)]
                                   fresh_store) ''progressive-disclosure'' = Some q' \<and>
         in_range (confidence q')"
    by (elim impE) (rule conjI)
  from t3 have "pg_getPattern sample_database ''no-such-pattern'' = None \<longrightarrow>
     pg_reinforcePattern 2000 ''no-such-pattern'' False sample_database = sample_database"
    by (elim conjE)
  with d have k: "pg_reinforcePattern 2000 ''no-such-pattern'' False sample_database = sample_database"
    by (elim mp)
  show ?thesis by (intro conjI a b f c g h d k)
qed

section \<open>Applying a pattern\<close>

lemma map_fst_Map_set_present:
  "Map_get m k = Some v \<Longrightarrow> map fst (Map_set k v' m) = map fst m"
  by (induction m) (auto simp: Map_get_def split: if_splits)




lemma row_id_touch [simp]: "row_id (touch_row now row) = row_id row"
  by (simp add: touch_row_def)










section \<open>Listing all patterns\<close>

lemma Map_values_Map_set_new:
  "Map_get m k = None \<Longrightarrow> Map_values (Map_set k v m) = Map_values m @ [v]"
  by (induction m) (auto simp: Map_get_def Map_values_def split: if_splits)

lemma descending_pg_rows:
  "descending (map confidence (map rowToPattern (sort_key (\<lambda>row. - row_confidence row) rows)))"
proof -
  have "sorted (map (\<lambda>row. - row_confidence row) (sort_key (\<lambda>row. - row_confidence row) rows))"
    by (rule sorted_sort_key)
  then have "sorted_wrt (\<lambda>r r'. row_confidence r' \<le> row_confidence r)
               (sort_key (\<lambda>row. - row_confidence row) rows)"
    by (simp add: sorted_map)
  then have "sorted_wrt (\<lambda>r r'. confidence (rowToPattern r') \<le> confidence (rowToPattern r))
               (sort_key (\<lambda>row. - row_confidence row) rows)"
    by (rule sorted_wrt_mono_rel [rotated]) (simp add: rowToPattern_def divide_right_mono)
  then show ?thesis
    by (simp add: descending_def sorted_wrt_map)
qed

text \<open>
  Claim C5, as the code has it. The relational \<open>getAllPatterns\<close> returns the patterns
  of all rows ordered by descending confidence. The file-backed \<open>getAllPatterns\<close>
  returns the values of its map in insertion order, whatever their confidence: a
  pattern saved under a new id comes last, and saving under a stored id keeps the keys
  and their order.
\<close>

theorem getAllPatterns_order:
  "descending (map confidence (pg_getAllPatterns db)) \<and>
   mset (pg_getAllPatterns db) = mset (map rowToPattern (patterns_table db)) \<and>
   getAllPatterns s = map snd (patterns s) \<and>
   (getPattern s (pattern_id p) = None \<longrightarrow>
      getAllPatterns (savePattern p s) = getAllPatterns s @ [p]) \<and>
   (getPattern s (pattern_id p) \<noteq> None \<longrightarrow>
      map fst (patterns (savePattern p s)) = map fst (patterns s))"
proof (intro conjI impI)
  show "descending (map confidence (pg_getAllPatterns db))"
    unfolding pg_getAllPatterns_def by (rule descending_pg_rows)
  show "mset (pg_getAllPatterns db) = mset (map rowToPattern (patterns_table db))"
    by (simp add: pg_getAllPatterns_def)
  show "getAllPatterns s = map snd (patterns s)"
    by (simp add: getAllPatterns_def Map_values_def)
next
  assume "getPattern s (pattern_id p) = None"
  then show "getAllPatterns (savePattern p s) = getAllPatterns s @ [p]"
    by (simp add: getAllPatterns_def savePattern_def getPattern_def Map_values_Map_set_new)
next
  assume "getPattern s (pattern_id p) \<noteq> None"
  then obtain v where "Map_get (patterns s) (pattern_id p) = Some v"
    by (auto simp: getPattern_def)
  then show "map fst (patterns (savePattern p s)) = map fst (patterns s)"
    by (simp add: savePattern_def map_fst_Map_set_present)
qed

theorem getAllPatterns_order_witness:
  "getPattern fresh_store (pattern_id hot_pattern) = None \<and>
   getAllPatterns (savePattern hot_pattern fresh_store) = getAllPatterns fresh_store @ [hot_pattern] \<and>
   descending (map confidence (pg_getAllPatterns sample_database)) \<and>
   map pattern_id (pg_getAllPatterns sample_database)
     = [''concrete-before-abstract'', ''progressive-disclosure'']"
proof -
  have a: "getPattern fresh_store (pattern_id hot_pattern) = None" by code_simp
  have b: "map pattern_id (pg_getAllPatterns sample_database)
     = [''concrete-before-abstract'', ''progressive-disclosure'']" by code_simp
  note t = getAllPatterns_order [of sample_database fresh_store hot_pattern]
  from t have c: "descending (map confidence (pg_getAllPatterns sample_database))"
    by (rule conjunct1)
  from t have "getPattern fresh_store (pattern_id hot_pattern) = None \<longrightarrow>
      getAllPatterns (savePattern hot_pattern fresh_store) = getAllPatterns fresh_store @ [hot_pattern]"
    by (elim conjE)
  with a have d: "getAllPatterns (savePattern hot_pattern fresh_store) = getAllPatterns fresh_store @ [hot_pattern]"
    by (elim mp)
  show ?thesis by (intro conjI a d c b)
qed

text \<open>
  Claim C5 as stated fails for the file-backed store: freshly created, it lists the
  sample pattern of confidence 0.85 before the one of confidence 0.9.
\<close>

theorem getAllPatterns_order_counterexample:
  "map confidence (getAllPatterns fresh_store) = [85 / 100, 9 / 10] \<and>
   \<not> descending (map confidence (getAllPatterns fresh_store))"
  by code_simp

section \<open>Similar episodes\<close>

lemma set_Set_of [simp]: "set (Set_of xs) = set xs"
  by (simp add: Set_of_def)

lemma distinct_Set_of [simp]: "distinct (Set_of xs)"
  by (simp add: Set_of_def)
















section \<open>Extraction: the common context\<close>

text \<open>
  What the common-context step computes: the tokens longer than three characters in the
  order of their first occurrence, those kept whose occurrences, repeats within one
  context included, number at least half the episodes, and of these the first five.
  Where no context repeats a long token, the occurrences of a token are as many as the
  episodes that have it.
\<close>

lemma fold_increment_long:
  "fold (\<lambda>word counts. if length word > 3 then increment word counts else counts) ws m
   = fold increment (filter (\<lambda>w. 3 < length w) ws) m"
  by (induction ws arbitrary: m) simp_all

lemma countContextWords_fold:
  "fold (\<lambda>ep contextCounts.
             fold (\<lambda>word counts. if length word > 3 then increment word counts else counts)
                  (split_ws (toLowerCase (episode_context ep))) contextCounts) eps m
   = fold increment (long_tokens eps) m"
  by (induction eps arbitrary: m) (simp_all add: long_tokens_def fold_increment_long)

lemma keys_Map_set:
  "map fst (Map_set k v m) = (if k \<in> fst ` set m then map fst m else map fst m @ [k])"
  by (induction m) (force+)

lemma keys_increment:
  "map fst (increment k m) = (if k \<in> fst ` set m then map fst m else map fst m @ [k])"
  unfolding increment_def by (rule keys_Map_set)

lemma Map_get_increment:
  "Map_get (increment k m) j =
     (if j = k then Some ((case Map_get m k of None \<Rightarrow> 0 | Some n \<Rightarrow> n) + 1) else Map_get m j)"
  by (simp add: increment_def Map_get_Map_set_same Map_get_Map_set_other)

lemma distinct_keys_increment:
  "distinct (map fst m) \<Longrightarrow> distinct (map fst (increment k m))"
  by (auto simp: keys_increment)

lemma count_of_increment: "count_of (increment k m) j = count_of m j + (if j = k then 1 else 0)"
  by (simp add: count_of_def Map_get_increment)

lemma count_of_fold: "count_of (fold increment ws m) j = count_of m j + count_list ws j"
  by (induction ws arbitrary: m) (simp_all add: count_of_increment)

lemma Set_of_snoc:
  "Set_of (xs @ [x]) = (if x \<in> set xs then Set_of xs else Set_of xs @ [x])"
  by (simp add: Set_of_def)

lemma keys_fold_snoc_aux:
  "map fst (fold increment ws []) = Set_of ws"
proof (induction ws rule: rev_induct)
  case Nil
  show ?case by (simp add: Set_of_def)
next
  case (snoc x xs)
  have "fst ` set (fold increment xs []) = set xs"
    using snoc by (metis set_Set_of set_map)
  then show ?case
    by (simp add: keys_increment snoc Set_of_snoc)
qed

lemma distinct_keys_fold: "distinct (map fst (fold increment ws []))"
  by (simp add: keys_fold_snoc_aux)

lemma entries_of_distinct:
  assumes "distinct (map fst m)"
  shows "m = map (\<lambda>k. (k, the (map_of m k))) (map fst m)"
proof -
  have "map (\<lambda>p. (fst p, the (map_of m (fst p)))) m = map (\<lambda>p. p) m"
  proof (rule map_cong [OF refl])
    fix p assume "p \<in> set m"
    then have "(fst p, snd p) \<in> set m" by simp
    with assms have "map_of m (fst p) = Some (snd p)"
      by (simp only: map_of_eq_Some_iff)
    then show "(fst p, the (map_of m (fst p))) = p" by simp
  qed
  then show ?thesis by (simp add: comp_def)
qed

lemma fold_increment_entries:
  "fold increment ws [] = map (\<lambda>w. (w, count_list ws w)) (Set_of ws)"
proof -
  let ?m = "fold increment ws []"
  have d: "distinct (map fst ?m)" by (rule distinct_keys_fold)
  have "?m = map (\<lambda>k. (k, the (map_of ?m k))) (map fst ?m)"
    by (rule entries_of_distinct [OF d])
  also have "\<dots> = map (\<lambda>k. (k, the (map_of ?m k))) (Set_of ws)"
    by (simp only: keys_fold_snoc_aux)
  also have "\<dots> = map (\<lambda>w. (w, count_list ws w)) (Set_of ws)"
  proof (rule map_cong [OF refl])
    fix k assume "k \<in> set (Set_of ws)"
    then have "k \<in> fst ` set ?m" using keys_fold_snoc_aux [of ws] by (metis set_map)
    then obtain n where n: "map_of ?m k = Some n"
      by (metis domIff dom_map_of_conv_image_fst not_None_eq)
    then have "count_of ?m k = n" by (simp add: count_of_def Map_get_def)
    moreover have "count_of ?m k = count_list ws k"
      using count_of_fold [of ws "[]" k] by (simp add: count_of_def Map_get_def)
    ultimately show "(k, the (map_of ?m k)) = (k, count_list ws k)" using n by simp
  qed
  finally show ?thesis .
qed

lemma commonContextOf_occurrences:
  "commonContextOf eps =
     take 5 (filter (\<lambda>w. (of_nat (length eps) :: number) / 2 \<le> of_nat (occurrences w eps))
                    (Set_of (long_tokens eps)))"
  by (simp add: commonContextOf_def countContextWords_def countContextWords_fold Let_def
      Map_entries_def fold_increment_entries filter_map comp_def occurrences_def)


lemma count_list_distinct:
  "distinct xs \<Longrightarrow> count_list xs w = (if w \<in> set xs then 1 else 0)"
  by (induction xs) auto

lemma count_list_concat:
  "count_list (concat xss) w = sum_list (map (\<lambda>xs. count_list xs w) xss)"
  by (induction xss) simp_all

lemma occurrences_document_frequency:
  assumes "\<forall>ep \<in> set eps.
             distinct (filter (\<lambda>w. 3 < length w) (split_ws (toLowerCase (episode_context ep))))"
    and "3 < length w"
  shows "occurrences w eps = document_frequency w eps"
  using assms
  by (induction eps)
     (simp_all add: occurrences_def long_tokens_def document_frequency_def count_list_distinct)

text \<open>
  Claim C7 does not hold of \<open>extractPattern\<close>: the count of a token goes up at each
  of its occurrences, also within one context. Of four episodes only the first has the
  token "retry", twice; its count 2 reaches the threshold 4 * 0.5, and the context of
  the extracted pattern is "retry" where the claim has "general".
\<close>

theorem repeated_token_counted_twice:
  "length repeated_episodes = 4 \<and>
   document_frequency ''retry'' repeated_episodes = 1 \<and>
   countContextWords repeated_episodes = [(''retry'', 2)] \<and>
   map_option pattern_context (extractPattern repeated_episodes ''Retry'' ''Flaky step'' 3000)
     = Some [''retry'']"
  by code_simp

end
